theory Spec2Isabelle
  imports Complex_Main "HOL-Library.Word"
begin

section \<open>JavaScript values\<close>

text \<open>
  The values that \<open>validate\<close> (lib/validate.js) inspects. A number is an IEEE double:
  not-a-number, the two infinities, or a finite value. A finite value is kept as the
  rational it denotes; the two zeros are one value here, since the comparisons
  \<open>>=\<close>, \<open>>\<close> and \<open>floor(x) === x\<close> that the checks use do not tell them apart.
  An object carries the kind of object it is (a plain object, an array, a function, a typed
  array, a boxed primitive, an instance of some other class) and its own properties in
  insertion order.
\<close>

datatype jsnum = NaN | PosInf | NegInf | Fin rat

datatype objkind =
  PlainObject | ArrayObject | FunctionObject | TypedArrayObject | BoxedPrimitive | ClassInstance

datatype jsval =
    JUndefined
  | JNull
  | JBool bool
  | JNum jsnum
  | JStr string
  | JObj objkind "(string \<times> jsval) list"

text \<open>
  The message of an error is built by \<open>format( code, arg1, arg2, ... )\<close> of
  @stdlib/error-tools-fmtprodmsg, which is not part of this package: the model keeps the
  error code and the arguments that the message is built from.
\<close>

datatype message = Format string "jsval list"

datatype error = TypeError message

text \<open>
  The destination object \<open>opts\<close>: a dictionary from property names to values. A property
  that was assigned \<open>undefined\<close> is present with the value \<open>JUndefined\<close>; a property that
  was never assigned is absent.
\<close>

type_synonym dest = "string \<rightharpoonup> jsval"

section \<open>The assertion helpers\<close>

text \<open>
  Modelled from the spec: the predicates of the @stdlib/assert-* packages that
  lib/validate.js requires (plain object, own property, primitive string, primitive
  boolean, non-negative number, non-negative integer, positive integer). They are
  dependencies of the package, kept in packages of their own; each is modelled by the
  contract the spec gives it (text, boolean, non-negative number, non-negative integer,
  positive integer) on primitive values: a boxed \<open>String\<close>, \<open>Number\<close> or \<open>Boolean\<close> is an
  object and fails the primitive checks.
\<close>

definition isObject :: "jsval \<Rightarrow> bool" where
  "isObject v = (case v of JObj PlainObject ps \<Rightarrow> True | _ \<Rightarrow> False)"

definition ownProps :: "jsval \<Rightarrow> (string \<times> jsval) list" where
  "ownProps v = (case v of JObj k ps \<Rightarrow> ps | _ \<Rightarrow> [])"

definition hasOwnProp :: "jsval \<Rightarrow> string \<Rightarrow> bool" where
  "hasOwnProp v k = (k \<in> set (map fst (ownProps v)))"

definition getProp :: "jsval \<Rightarrow> string \<Rightarrow> jsval" where
  \<comment> \<open>\<open>options.k\<close>, read only where \<open>k\<close> is an own property\<close>
  "getProp v k = (case map_of (ownProps v) k of Some x \<Rightarrow> x | None \<Rightarrow> JUndefined)"

definition isString :: "jsval \<Rightarrow> bool" where
  "isString v = (case v of JStr s \<Rightarrow> True | _ \<Rightarrow> False)"

definition isBoolean :: "jsval \<Rightarrow> bool" where
  "isBoolean v = (case v of JBool b \<Rightarrow> True | _ \<Rightarrow> False)"

fun num_nonneg :: "jsnum \<Rightarrow> bool" where
  \<comment> \<open>\<open>x >= 0\<close>\<close>
  "num_nonneg NaN = False"
| "num_nonneg PosInf = True"
| "num_nonneg NegInf = False"
| "num_nonneg (Fin q) = (0 \<le> q)"

fun num_pos :: "jsnum \<Rightarrow> bool" where
  \<comment> \<open>\<open>x > 0\<close>\<close>
  "num_pos NaN = False"
| "num_pos PosInf = True"
| "num_pos NegInf = False"
| "num_pos (Fin q) = (0 < q)"

fun num_integer :: "jsnum \<Rightarrow> bool" where
  \<comment> \<open>finite and \<open>floor(x) === x\<close>\<close>
  "num_integer (Fin q) = (of_int \<lfloor>q\<rfloor> = q)"
| "num_integer _ = False"

definition isNonNegative :: "jsval \<Rightarrow> bool" where
  "isNonNegative v = (case v of JNum x \<Rightarrow> num_nonneg x | _ \<Rightarrow> False)"

definition isNonNegativeInteger :: "jsval \<Rightarrow> bool" where
  "isNonNegativeInteger v = (case v of JNum x \<Rightarrow> num_integer x \<and> num_nonneg x | _ \<Rightarrow> False)"

definition isPositiveInteger :: "jsval \<Rightarrow> bool" where
  "isPositiveInteger v = (case v of JNum x \<Rightarrow> num_integer x \<and> num_pos x | _ \<Rightarrow> False)"

section \<open>validate\<close>

text \<open>
  \<open>validate( opts, options )\<close> mutates \<open>opts\<close> and returns an error or \<open>null\<close>. The model
  returns both: the error (\<open>None\<close> for \<open>null\<close>) and the destination as the call leaves it.

  The body of the function is a sequence of blocks, each of which may return early. A block
  takes the destination and gives the error it returns with (if it does) and the
  destination it leaves; \<open>run\<close> executes blocks in order and stops at the first that returns.
\<close>

type_synonym block = "dest \<Rightarrow> error option \<times> dest"

definition readProp :: "dest \<Rightarrow> string \<Rightarrow> jsval" where
  \<comment> \<open>\<open>opts.k\<close>\<close>
  "readProp opts k = (case opts k of Some v \<Rightarrow> v | None \<Rightarrow> JUndefined)"

text \<open>
  A validated field, as for \<open>sep\<close>:
  \<^verbatim>\<open>
  if ( hasOwnProp( options, 'sep' ) ) {
      opts.sep = options.sep;
      if ( !isString( opts.sep ) ) {
          return new TypeError( format( '0qh2W,Gh', 'sep', opts.sep ) );
      }
  }
  \<close>
  \<open>bad\<close> is the condition of the inner \<open>if\<close>.
\<close>

definition validated :: "jsval \<Rightarrow> string \<Rightarrow> string \<Rightarrow> (jsval \<Rightarrow> bool) \<Rightarrow> block" where
  "validated options k code bad opts =
     (if hasOwnProp options k then
        (let opts' = opts(k \<mapsto> getProp options k) in
         if bad (readProp opts' k)
         then (Some (TypeError (Format code [JStr k, readProp opts' k])), opts')
         else (None, opts'))
      else (None, opts))"

text \<open>
  A pass-through field, as for \<open>prng\<close>:
  \<^verbatim>\<open>
  if ( hasOwnProp( options, 'prng' ) ) {
      opts.prng = options.prng;
  }
  \<close>
\<close>

definition passthrough :: "jsval \<Rightarrow> string \<Rightarrow> block" where
  "passthrough options k opts =
     (if hasOwnProp options k then (None, opts(k \<mapsto> getProp options k)) else (None, opts))"

fun run :: "block list \<Rightarrow> block" where
  "run [] opts = (None, opts)"
| "run (b # bs) opts =
     (case b opts of (Some e, opts') \<Rightarrow> (Some e, opts') | (None, opts') \<Rightarrow> run bs opts')"

definition blocks :: "jsval \<Rightarrow> block list" where
  "blocks options =
     [ validated options ''sep'' ''0qh2W,Gh'' (\<lambda>v. \<not> isString v),
       validated options ''objectMode'' ''0qh2o,GE'' (\<lambda>v. \<not> isBoolean v),
       validated options ''encoding'' ''0qh7n,Ny'' (\<lambda>v. \<not> isString v \<and> v \<noteq> JNull),
       validated options ''highWaterMark'' ''0qh4k,I9'' (\<lambda>v. \<not> isNonNegative v),
       validated options ''iter'' ''0qh2t,G9'' (\<lambda>v. \<not> isNonNegativeInteger v),
       validated options ''siter'' ''0qh3P,Fv'' (\<lambda>v. \<not> isPositiveInteger v),
       passthrough options ''prng'',
       passthrough options ''seed'',
       passthrough options ''state'',
       passthrough options ''copy'' ]"

definition validate :: "dest \<Rightarrow> jsval \<Rightarrow> error option \<times> dest" where
  "validate opts options =
     (if \<not> isObject options
      then (Some (TypeError (Format ''0qh2V,FD'' [options])), opts)
      else run (blocks options) opts)"

section \<open>The checks as data\<close>

text \<open>
  What a block does to the destination: \<open>opts.k = options.k\<close> when \<open>k\<close> is an own property
  of \<open>options\<close>, nothing otherwise. \<open>copyProps\<close> does so for a list of keys, in order.
\<close>

definition copyProp :: "jsval \<Rightarrow> string \<Rightarrow> dest \<Rightarrow> dest" where
  "copyProp options k opts = (if hasOwnProp options k then opts(k \<mapsto> getProp options k) else opts)"

primrec copyProps :: "jsval \<Rightarrow> string list \<Rightarrow> dest \<Rightarrow> dest" where
  "copyProps options [] opts = opts"
| "copyProps options (k # ks) opts = copyProps options ks (copyProp options k opts)"

text \<open>
  The six validated fields in the order of the source, each with its error code and the
  condition under which its value is refused, and the four pass-through fields in their
  order. \<open>blocks\<close> is these two lists, block by block (lemma \<open>blocks_eq\<close> below).
\<close>

type_synonym check = "string \<times> string \<times> (jsval \<Rightarrow> bool)"

definition checks :: "check list" where
  "checks =
     [ (''sep'', ''0qh2W,Gh'', \<lambda>v. \<not> isString v),
       (''objectMode'', ''0qh2o,GE'', \<lambda>v. \<not> isBoolean v),
       (''encoding'', ''0qh7n,Ny'', \<lambda>v. \<not> isString v \<and> v \<noteq> JNull),
       (''highWaterMark'', ''0qh4k,I9'', \<lambda>v. \<not> isNonNegative v),
       (''iter'', ''0qh2t,G9'', \<lambda>v. \<not> isNonNegativeInteger v),
       (''siter'', ''0qh3P,Fv'', \<lambda>v. \<not> isPositiveInteger v) ]"

definition passed :: "string list" where
  "passed = [''prng'', ''seed'', ''state'', ''copy'']"

definition check_block :: "jsval \<Rightarrow> check \<Rightarrow> block" where
  "check_block options c = (case c of (k, code, bad) \<Rightarrow> validated options k code bad)"

definition check_invalid :: "jsval \<Rightarrow> check \<Rightarrow> bool" where
  \<comment> \<open>the field is an own property of \<open>options\<close> and its value is refused\<close>
  "check_invalid options c =
     (case c of (k, code, bad) \<Rightarrow> hasOwnProp options k \<and> bad (getProp options k))"

definition check_error :: "jsval \<Rightarrow> check \<Rightarrow> error" where
  \<comment> \<open>the error the field's block returns with\<close>
  "check_error options c =
     (case c of (k, code, bad) \<Rightarrow> TypeError (Format code [JStr k, getProp options k]))"

section \<open>Generator state: shared and exclusive buffers\<close>

text \<open>
  Modelled from the spec: the state manager of the stream (the \<open>state\<close> property of
  lib/main.js and the generator behind it), which this development does not have the code
  of. The model follows section 4.2 of the specification, "Runtime contract for state
  replacement", and the ownership tag of its design notes.

  State buffers are \<open>Uint32Array\<close>s that several holders may reference, so they live in a
  store: a list of buffers, an address being an index into it. A manager holds the
  address of its buffer, whether it shares that buffer with others or owns it
  exclusively, and the \<open>copy\<close> flag it was constructed with.
\<close>

type_synonym addr = nat
type_synonym buffer = "32 word list"
type_synonym heap = "buffer list"

datatype ownership = Exclusive | Shared

record manager =
  ref :: addr
  owner :: ownership
  copy :: bool

definition copy_elements :: "buffer \<Rightarrow> buffer \<Rightarrow> buffer" where
  \<comment> \<open>Modelled from the spec: "the contents are copied element-wise into the existing
      shared buffer": \<open>dst[i] = src[i]\<close> for each index of \<open>src\<close> in turn\<close>
  "copy_elements src dst = fold (\<lambda>i d. d[i := src ! i]) [0..<length src] dst"

definition getState :: "manager \<Rightarrow> heap \<Rightarrow> buffer option" where
  \<comment> \<open>Modelled from the spec: the \<open>state\<close> read of a holder, the contents of the buffer it
      references\<close>
  "getState m h = (if ref m < length h then Some (h ! ref m) else None)"

definition setState :: "manager \<Rightarrow> addr \<Rightarrow> heap \<Rightarrow> (manager \<times> heap) option" where
  \<comment> \<open>Modelled from the spec: \<open>setState(newBuffer)\<close>. A shared buffer and a new buffer of
      the same length: the contents are copied into the shared buffer. Otherwise (another
      length, or an exclusive buffer) the manager rebinds its reference: to a clone of the
      new buffer if \<open>copy\<close> is set, to the new buffer itself if not. \<open>None\<close> where an address
      is not in the store.\<close>
  "setState m new h =
     (if \<not> (ref m < length h \<and> new < length h) then None
      else if owner m = Shared \<and> length (h ! new) = length (h ! ref m)
        then Some (m, h[ref m := copy_elements (h ! new) (h ! ref m)])
      else if copy m
        then Some (m\<lparr>ref := length h, owner := Exclusive\<rparr>, h @ [h ! new])
      else Some (m\<lparr>ref := new, owner := Shared\<rparr>, h))"

section \<open>Evaluating the definitions\<close>

lemmas helper_defs =
  isObject_def ownProps_def hasOwnProp_def getProp_def isString_def isBoolean_def
  isNonNegative_def isNonNegativeInteger_def isPositiveInteger_def

lemmas validate_defs =
  validate_def blocks_def validated_def passthrough_def readProp_def Let_def helper_defs

section \<open>What a block does, and what a run of blocks does\<close>

lemma readProp_upd: "readProp (opts(k \<mapsto> v)) k = v"
  by (simp add: readProp_def)

lemma check_block_eq:
  "check_block options c opts =
     (if check_invalid options c then Some (check_error options c) else None,
      copyProp options (fst c) opts)"
  by (cases c) (simp add: check_block_def check_invalid_def check_error_def validated_def
      copyProp_def readProp_upd Let_def)

lemma passthrough_eq: "passthrough options k opts = (None, copyProp options k opts)"
  by (simp add: passthrough_def copyProp_def)

lemma blocks_eq:
  "blocks options = map (check_block options) checks @ map (passthrough options) passed"
  by (simp add: blocks_def checks_def passed_def check_block_def)

lemma run_append:
  "run (as @ bs) opts =
     (case run as opts of (Some e, opts') \<Rightarrow> (Some e, opts') | (None, opts') \<Rightarrow> run bs opts')"
  by (induction as arbitrary: opts) (auto split: prod.splits option.splits)

lemma copyProps_append:
  "copyProps options (ks @ ks') opts = copyProps options ks' (copyProps options ks opts)"
  by (induction ks arbitrary: opts) simp_all

lemma run_passthrough:
  "run (map (passthrough options) ks) opts = (None, copyProps options ks opts)"
  by (induction ks arbitrary: opts) (simp_all add: passthrough_eq)

lemma run_checks_valid:
  "\<forall>c\<in>set cs. \<not> check_invalid options c \<Longrightarrow>
     run (map (check_block options) cs) opts = (None, copyProps options (map fst cs) opts)"
  by (induction cs arbitrary: opts) (simp_all add: check_block_eq)

lemma run_checks_invalid:
  assumes "\<forall>x\<in>set pre. \<not> check_invalid options x" and "check_invalid options c"
  shows "run (map (check_block options) (pre @ c # post) @ rest) opts =
           (Some (check_error options c), copyProps options (map fst pre @ [fst c]) opts)"
  using assms by (simp add: run_append run_checks_valid check_block_eq copyProps_append)

lemma copyProps_other:
  "k \<notin> set ks \<or> \<not> hasOwnProp options k \<Longrightarrow> copyProps options ks opts k = opts k"
  by (induction ks arbitrary: opts) (auto simp: copyProp_def)

lemma copyProps_in:
  "k \<in> set ks \<Longrightarrow> hasOwnProp options k \<Longrightarrow> copyProps options ks opts k = Some (getProp options k)"
proof (induction ks arbitrary: opts)
  case Nil
  then show ?case by simp
next
  case (Cons a ks)
  show ?case
  proof (cases "k \<in> set ks")
    case True
    with Cons show ?thesis by simp
  next
    case False
    with Cons.prems have "a = k" by simp
    with False Cons.prems show ?thesis
      by (simp add: copyProps_other copyProp_def)
  qed
qed

lemma validate_valid:
  assumes "isObject options" and "\<forall>c\<in>set checks. \<not> check_invalid options c"
  shows "validate opts options = (None, copyProps options (map fst checks @ passed) opts)"
  using assms
  by (simp add: validate_def blocks_eq run_append run_checks_valid run_passthrough copyProps_append)

lemma validate_invalid:
  assumes "isObject options" and "checks = pre @ c # post"
    and "\<forall>x\<in>set pre. \<not> check_invalid options x" and "check_invalid options c"
  shows "validate opts options =
           (Some (check_error options c), copyProps options (map fst pre @ [fst c]) opts)"
proof -
  have "run (map (check_block options) (pre @ c # post) @ map (passthrough options) passed) opts =
          (Some (check_error options c), copyProps options (map fst pre @ [fst c]) opts)"
    using assms(3,4) by (rule run_checks_invalid)
  with assms(1,2) show ?thesis
    by (simp add: validate_def blocks_eq)
qed

lemma validate_result:
  assumes "isObject options"
  shows "((\<forall>c\<in>set checks. \<not> check_invalid options c) \<and>
          validate opts options = (None, copyProps options (map fst checks @ passed) opts))
       \<or> (\<exists>pre c post. checks = pre @ c # post \<and>
            (\<forall>x\<in>set pre. \<not> check_invalid options x) \<and> check_invalid options c \<and>
            validate opts options =
              (Some (check_error options c), copyProps options (map fst pre @ [fst c]) opts))"
proof (cases "\<exists>c\<in>set checks. check_invalid options c")
  case True
  then obtain pre c post where "checks = pre @ c # post" "check_invalid options c"
      "\<forall>x\<in>set pre. \<not> check_invalid options x"
    using split_list_first_prop [of checks "check_invalid options"] by blast
  with assms validate_invalid show ?thesis by blast
next
  case False
  with assms validate_valid show ?thesis by blast
qed

lemma checks_valid_iff:
  "(\<forall>c\<in>set checks. \<not> check_invalid options c) \<longleftrightarrow>
     (hasOwnProp options ''sep'' \<longrightarrow> isString (getProp options ''sep'')) \<and>
     (hasOwnProp options ''objectMode'' \<longrightarrow> isBoolean (getProp options ''objectMode'')) \<and>
     (hasOwnProp options ''encoding'' \<longrightarrow>
        isString (getProp options ''encoding'') \<or> getProp options ''encoding'' = JNull) \<and>
     (hasOwnProp options ''highWaterMark'' \<longrightarrow> isNonNegative (getProp options ''highWaterMark'')) \<and>
     (hasOwnProp options ''iter'' \<longrightarrow> isNonNegativeInteger (getProp options ''iter'')) \<and>
     (hasOwnProp options ''siter'' \<longrightarrow> isPositiveInteger (getProp options ''siter''))"
  by (simp add: checks_def check_invalid_def)

lemma check_error_shape:
  "c \<in> set checks \<Longrightarrow>
     \<exists>k code. k \<in> {''sep'', ''objectMode'', ''encoding'', ''highWaterMark'', ''iter'', ''siter''} \<and>
       check_error options c = TypeError (Format code [JStr k, getProp options k])"
  by (auto simp: checks_def check_error_def)

lemma distinct_keys: "distinct (map fst checks @ passed)"
  by (simp add: checks_def passed_def)

lemma fst_run_checks:
  "fst (run (map (check_block options) cs @ map (passthrough options) ks) opts) =
     map_option (check_error options) (find (check_invalid options) cs)"
  by (induction cs arbitrary: opts) (simp_all add: check_block_eq run_passthrough)

lemma validate_fst:
  "isObject options \<Longrightarrow>
     fst (validate opts options) = map_option (check_error options) (find (check_invalid options) checks)"
  by (simp add: validate_def blocks_eq fst_run_checks)

lemma find_skip: "\<forall>x\<in>set pre. \<not> P x \<Longrightarrow> find P (pre @ rest) = find P rest"
  by (induction pre) simp_all

lemma validate_fst_skip:
  assumes "isObject options" and "\<forall>c\<in>set (take n checks). \<not> check_invalid options c"
  shows "fst (validate opts options) =
           map_option (check_error options) (find (check_invalid options) (drop n checks))"
proof -
  have "find (check_invalid options) (take n checks @ drop n checks) =
          find (check_invalid options) (drop n checks)"
    using assms(2) by (rule find_skip)
  then show ?thesis
    using assms(1) by (simp add: validate_fst)
qed

lemma copyProps_result:
  "copyProps options ks opts k = opts k \<or>
     (k \<in> set ks \<and> hasOwnProp options k \<and> copyProps options ks opts k = Some (getProp options k))"
  using copyProps_other [of k ks options opts] copyProps_in [of k ks options opts] by blast

lemma validate_snd:
  "\<exists>ks. set ks \<subseteq> set (map fst checks @ passed) \<and> snd (validate opts options) = copyProps options ks opts"
proof (cases "isObject options")
  case False
  then have "snd (validate opts options) = copyProps options [] opts"
    by (simp add: validate_def)
  then show ?thesis by (metis empty_set empty_subsetI)
next
  case True
  from validate_result [OF True, of opts] show ?thesis
  proof (elim disjE exE conjE)
    assume "validate opts options = (None, copyProps options (map fst checks @ passed) opts)"
    then have "snd (validate opts options) = copyProps options (map fst checks @ passed) opts"
      by simp
    then show ?thesis by blast
  next
    fix pre c post
    assume c: "checks = pre @ c # post"
      and "validate opts options =
        (Some (check_error options c), copyProps options (map fst pre @ [fst c]) opts)"
    then have "snd (validate opts options) = copyProps options (map fst pre @ [fst c]) opts"
      by simp
    moreover have "set (map fst pre @ [fst c]) \<subseteq> set (map fst checks @ passed)"
      unfolding c by auto
    ultimately show ?thesis by blast
  qed
qed

lemma num_integer_nonneg_iff:
  "num_integer x \<and> num_nonneg x \<longleftrightarrow> (\<exists>n::nat. x = Fin (of_nat n))"
proof (cases x)
  case (Fin q)
  have "of_int \<lfloor>q\<rfloor> = q \<and> 0 \<le> q \<longleftrightarrow> (\<exists>n::nat. q = of_nat n)"
  proof
    assume a: "of_int \<lfloor>q\<rfloor> = q \<and> 0 \<le> q"
    then have "0 \<le> \<lfloor>q\<rfloor>" by simp
    then have "of_nat (nat \<lfloor>q\<rfloor>) = (of_int \<lfloor>q\<rfloor> :: rat)" by simp
    with a have "q = of_nat (nat \<lfloor>q\<rfloor>)" by (simp only:)
    then show "\<exists>n::nat. q = of_nat n" ..
  next
    assume "\<exists>n::nat. q = of_nat n"
    then obtain n :: nat where "q = of_nat n" ..
    then show "of_int \<lfloor>q\<rfloor> = q \<and> 0 \<le> q"
      by (simp only: floor_of_nat of_int_of_nat_eq of_nat_0_le_iff simp_thms)
  qed
  with Fin show ?thesis by simp
qed simp_all

lemma isNonNegativeInteger_iff:
  "isNonNegativeInteger v \<longleftrightarrow> (\<exists>n::nat. v = JNum (Fin (of_nat n)))"
  by (cases v) (auto simp: isNonNegativeInteger_def num_integer_nonneg_iff)

lemma isString_iff: "isString v \<longleftrightarrow> (\<exists>s. v = JStr s)"
  by (cases v) (simp_all add: isString_def)

lemma validate_error_keeps_passed:
  assumes "isObject options" and "fst (validate opts options) \<noteq> None" and "k \<in> set passed"
  shows "snd (validate opts options) k = opts k"
proof -
  from validate_result [OF assms(1), of opts] assms(2)
  obtain pre c post where c: "checks = pre @ c # post"
    and v: "validate opts options =
        (Some (check_error options c), copyProps options (map fst pre @ [fst c]) opts)"
    by auto
  have "k \<notin> set (map fst pre @ [fst c])"
    using distinct_keys assms(3) unfolding c by (auto simp: image_iff)
  then show ?thesis
    using v by (simp add: copyProps_other)
qed

lemma recognized_keys:
  "set (map fst checks @ passed) =
     {''sep'', ''objectMode'', ''encoding'', ''highWaterMark'', ''iter'', ''siter'',
      ''prng'', ''seed'', ''state'', ''copy''}"
  by (simp add: checks_def passed_def)

lemma validate_frame_aux:
  "(k \<notin> set (map fst checks @ passed) \<longrightarrow> snd (validate opts options) k = opts k) \<and>
   (\<not> hasOwnProp options k \<longrightarrow> snd (validate opts options) k = opts k) \<and>
   (snd (validate opts options) k \<noteq> opts k \<longrightarrow>
      snd (validate opts options) k = Some (getProp options k)) \<and>
   (isObject options \<and> (\<forall>k'\<in>set (map fst checks @ passed). \<not> hasOwnProp options k') \<longrightarrow>
      validate opts options = (None, opts))"
proof -
  obtain ks where ks: "set ks \<subseteq> set (map fst checks @ passed)"
    and s: "snd (validate opts options) = copyProps options ks opts"
    using validate_snd by blast
  have 1: "k \<notin> set (map fst checks @ passed) \<longrightarrow> snd (validate opts options) k = opts k"
    using ks copyProps_result [of options ks opts k] unfolding s by blast
  have 2: "\<not> hasOwnProp options k \<longrightarrow> snd (validate opts options) k = opts k"
    using copyProps_result [of options ks opts k] unfolding s by blast
  have 3: "snd (validate opts options) k \<noteq> opts k \<longrightarrow>
      snd (validate opts options) k = Some (getProp options k)"
    using copyProps_result [of options ks opts k] unfolding s by blast
  have 4: "validate opts options = (None, opts)"
    if "isObject options" and none: "\<forall>k'\<in>set (map fst checks @ passed). \<not> hasOwnProp options k'"
  proof -
    have "\<forall>c\<in>set checks. \<not> check_invalid options c"
      using none by (force simp: check_invalid_def)
    then have "validate opts options = (None, copyProps options (map fst checks @ passed) opts)"
      using that(1) by (simp add: validate_valid)
    moreover have "copyProps options (map fst checks @ passed) opts k' = opts k'" for k'
      using none copyProps_result [of options "map fst checks @ passed" opts k'] by blast
    ultimately show ?thesis by auto
  qed
  from 1 2 3 4 show ?thesis by blast
qed

lemma copy_prefix:
  "n \<le> length src \<Longrightarrow> length src = length dst \<Longrightarrow>
     fold (\<lambda>i d. d[i := src ! i]) [0..<n] dst = take n src @ drop n dst"
proof (induction n)
  case 0
  then show ?case by simp
next
  case (Suc n)
  then have n: "n < length src" "n < length dst" by simp_all
  have "(take n src @ drop n dst)[n := src ! n] = take n src @ (drop n dst)[0 := src ! n]"
    using n by (simp add: list_update_append)
  also have "(drop n dst)[0 := src ! n] = src ! n # drop (Suc n) dst"
    using n by (simp add: Cons_nth_drop_Suc [symmetric])
  also have "take n src @ src ! n # drop (Suc n) dst = take (Suc n) src @ drop (Suc n) dst"
    using n by (simp add: take_Suc_conv_app_nth)
  finally show ?case using Suc by simp
qed

lemma copy_elements_same_length:
  "length src = length dst \<Longrightarrow> copy_elements src dst = src"
  by (simp add: copy_elements_def copy_prefix)

section \<open>When validate returns null\<close>

text \<open>
  C1. For every destination \<open>opts\<close> and every plain-object \<open>options\<close>, \<open>validate\<close> returns
  \<open>null\<close> if and only if every validated field that is an own property of \<open>options\<close>
  satisfies its condition: \<open>sep\<close> is a string, \<open>objectMode\<close> is a boolean, \<open>encoding\<close> is a
  string or \<open>null\<close>, \<open>highWaterMark\<close> is a non-negative number, \<open>iter\<close> is a non-negative
  integer, \<open>siter\<close> is a positive integer. Otherwise it returns a \<open>TypeError\<close>, built from
  the name of one of these six fields and the value \<open>options\<close> has for it.
\<close>

theorem validate_null_iff:
  assumes "isObject options"
  shows "(fst (validate opts options) = None \<longleftrightarrow>
           (hasOwnProp options ''sep'' \<longrightarrow> isString (getProp options ''sep'')) \<and>
           (hasOwnProp options ''objectMode'' \<longrightarrow> isBoolean (getProp options ''objectMode'')) \<and>
           (hasOwnProp options ''encoding'' \<longrightarrow>
              isString (getProp options ''encoding'') \<or> getProp options ''encoding'' = JNull) \<and>
           (hasOwnProp options ''highWaterMark'' \<longrightarrow>
              isNonNegative (getProp options ''highWaterMark'')) \<and>
           (hasOwnProp options ''iter'' \<longrightarrow> isNonNegativeInteger (getProp options ''iter'')) \<and>
           (hasOwnProp options ''siter'' \<longrightarrow> isPositiveInteger (getProp options ''siter'')))
       \<and> (fst (validate opts options) \<noteq> None \<longrightarrow>
            (\<exists>k code. k \<in> {''sep'', ''objectMode'', ''encoding'', ''highWaterMark'', ''iter'', ''siter''} \<and>
               fst (validate opts options) = Some (TypeError (Format code [JStr k, getProp options k]))))"
proof -
  consider (valid) "\<forall>c\<in>set checks. \<not> check_invalid options c"
      "validate opts options = (None, copyProps options (map fst checks @ passed) opts)"
    | (invalid) pre c post where "checks = pre @ c # post" "check_invalid options c"
      "validate opts options =
         (Some (check_error options c), copyProps options (map fst pre @ [fst c]) opts)"
    using validate_result [OF assms, of opts] by blast
  then show ?thesis
  proof cases
    case valid
    then show ?thesis
      by (simp add: checks_valid_iff)
  next
    case (invalid pre c post)
    have c: "c \<in> set checks" unfolding invalid(1) by simp
    with invalid(2) have "\<not> (\<forall>c\<in>set checks. \<not> check_invalid options c)" by blast
    then show ?thesis
      unfolding checks_valid_iff using invalid(3) check_error_shape [OF c, of options] by simp
  qed
qed

theorem validate_null_iff_witness:
  "isObject (JObj PlainObject [(''sep'', JStr ''x''), (''iter'', JNum (Fin 0)), (''verbose'', JBool True)]) \<and>
   fst (validate Map.empty
     (JObj PlainObject [(''sep'', JStr ''x''), (''iter'', JNum (Fin 0)), (''verbose'', JBool True)])) = None"
  using validate_null_iff
    [of "JObj PlainObject [(''sep'', JStr ''x''), (''iter'', JNum (Fin 0)), (''verbose'', JBool True)]"
        Map.empty]
  by (simp add: helper_defs)

section \<open>The first failure decides\<close>

text \<open>
  C2. The six validated fields are checked in the fixed order \<open>sep\<close>, \<open>objectMode\<close>,
  \<open>encoding\<close>, \<open>highWaterMark\<close>, \<open>iter\<close>, \<open>siter\<close> (the list \<open>checks\<close>). For every plain-object
  \<open>options\<close> in which some field \<open>c\<close> is invalid and no field before it in the order is (so
  with two or more invalid fields, \<open>c\<close> is the earliest of them), \<open>validate\<close> returns the
  error of \<open>c\<close>, and no field after \<open>c\<close> (validated or passed through) is written into the
  destination.
\<close>

theorem validate_first_failure:
  assumes "isObject options"
    and "checks = pre @ c # post"
    and "\<forall>x\<in>set pre. \<not> check_invalid options x"
    and "check_invalid options c"
  shows "fst (validate opts options) = Some (check_error options c) \<and>
         (\<forall>k\<in>set (map fst post @ passed). snd (validate opts options) k = opts k)"
proof -
  have v: "validate opts options =
      (Some (check_error options c), copyProps options (map fst pre @ [fst c]) opts)"
    using assms by (rule validate_invalid)
  have "k \<notin> set (map fst pre @ [fst c])" if "k \<in> set (map fst post @ passed)" for k
    using distinct_keys that unfolding assms(2) by (auto simp: image_iff)
  then have "\<forall>k\<in>set (map fst post @ passed). copyProps options (map fst pre @ [fst c]) opts k = opts k"
    using copyProps_other by blast
  with v show ?thesis by simp
qed

theorem validate_first_failure_witness:
  "fst (validate Map.empty
     (JObj PlainObject [(''seed'', JNum (Fin 1)), (''iter'', JNum (Fin (-1))),
                        (''encoding'', JNum (Fin 5)), (''sep'', JStr ''x'')]))
     = Some (TypeError (Format ''0qh7n,Ny'' [JStr ''encoding'', JNum (Fin 5)])) \<and>
   snd (validate Map.empty
     (JObj PlainObject [(''seed'', JNum (Fin 1)), (''iter'', JNum (Fin (-1))),
                        (''encoding'', JNum (Fin 5)), (''sep'', JStr ''x'')])) ''iter'' = None \<and>
   snd (validate Map.empty
     (JObj PlainObject [(''seed'', JNum (Fin 1)), (''iter'', JNum (Fin (-1))),
                        (''encoding'', JNum (Fin 5)), (''sep'', JStr ''x'')])) ''seed'' = None"
  using validate_first_failure
    [of "JObj PlainObject [(''seed'', JNum (Fin 1)), (''iter'', JNum (Fin (-1))),
                        (''encoding'', JNum (Fin 5)), (''sep'', JStr ''x'')]"
        "take 2 checks" "checks ! 2" "drop 3 checks" Map.empty]
  by (simp add: checks_def passed_def check_invalid_def check_error_def helper_defs)

section \<open>The destination when validate returns an error\<close>




section \<open>The pass-through fields\<close>

text \<open>
  C5, as stated: for every plain-object \<open>options\<close>, the fields \<open>prng\<close>, \<open>seed\<close>, \<open>state\<close> and
  \<open>copy\<close> that are own properties are copied into the destination. The four assignments
  come after the six checks, and a failed check returns before them: with \<open>options\<close> being
  \<open>{ 'sep': 5, 'seed': 1 }\<close> and an empty destination, \<open>seed\<close> is an own property of
  \<open>options\<close> and the destination has no \<open>seed\<close> after the call.
\<close>

theorem validate_passthrough_counterexample:
  "isObject (JObj PlainObject [(''sep'', JNum (Fin 5)), (''seed'', JNum (Fin 1))]) \<and>
   hasOwnProp (JObj PlainObject [(''sep'', JNum (Fin 5)), (''seed'', JNum (Fin 1))]) ''seed'' \<and>
   snd (validate Map.empty (JObj PlainObject [(''sep'', JNum (Fin 5)), (''seed'', JNum (Fin 1))])) ''seed''
     = None"
  by (simp add: validate_defs)

text \<open>
  C5, amended. For every plain-object \<open>options\<close> on which \<open>validate\<close> returns \<open>null\<close>, each of
  \<open>prng\<close>, \<open>seed\<close>, \<open>state\<close> and \<open>copy\<close> that is an own property of \<open>options\<close> is in the
  destination with the very value \<open>options\<close> has for it; when \<open>validate\<close> returns an error,
  none of the four is written. No value of these four fields causes an error: any
  plain-object \<open>options'\<close> that agrees with \<open>options\<close> on every other key gets the same result
  (the same error, or \<open>null\<close>).
\<close>

theorem validate_passthrough:
  assumes "isObject options"
  shows "(fst (validate opts options) = None \<longrightarrow>
            (\<forall>k\<in>{''prng'', ''seed'', ''state'', ''copy''}. hasOwnProp options k \<longrightarrow>
               snd (validate opts options) k = Some (getProp options k))) \<and>
         (fst (validate opts options) \<noteq> None \<longrightarrow>
            (\<forall>k\<in>{''prng'', ''seed'', ''state'', ''copy''}. snd (validate opts options) k = opts k)) \<and>
         (\<forall>options'. isObject options' \<and>
            (\<forall>k. k \<notin> {''prng'', ''seed'', ''state'', ''copy''} \<longrightarrow>
               hasOwnProp options' k = hasOwnProp options k \<and> getProp options' k = getProp options k) \<longrightarrow>
            fst (validate opts options') = fst (validate opts options))"
proof (intro conjI impI allI)
  assume "fst (validate opts options) = None"
  with validate_result [OF assms, of opts]
  have "snd (validate opts options) = copyProps options (map fst checks @ passed) opts"
    by auto
  then show "\<forall>k\<in>{''prng'', ''seed'', ''state'', ''copy''}. hasOwnProp options k \<longrightarrow>
               snd (validate opts options) k = Some (getProp options k)"
    by (simp add: copyProps_in passed_def)
next
  assume "fst (validate opts options) \<noteq> None"
  then have "\<forall>k\<in>set passed. snd (validate opts options) k = opts k"
    using assms validate_error_keeps_passed by blast
  then show "\<forall>k\<in>{''prng'', ''seed'', ''state'', ''copy''}. snd (validate opts options) k = opts k"
    by (simp add: passed_def)
next
  fix options'
  assume a: "isObject options' \<and>
            (\<forall>k. k \<notin> {''prng'', ''seed'', ''state'', ''copy''} \<longrightarrow>
               hasOwnProp options' k = hasOwnProp options k \<and> getProp options' k = getProp options k)"
  then have "\<forall>c\<in>set checks. check_invalid options' c = check_invalid options c \<and>
               check_error options' c = check_error options c"
    by (simp add: checks_def check_invalid_def check_error_def)
  then have "map_option (check_error options') (find (check_invalid options') checks) =
             map_option (check_error options) (find (check_invalid options) checks)"
    by (simp add: checks_def)
  with a assms show "fst (validate opts options') = fst (validate opts options)"
    by (simp add: validate_fst)
qed

theorem validate_passthrough_witness:
  "fst (validate Map.empty (JObj PlainObject [(''seed'', JStr ''anything''), (''copy'', JNum NaN)])) = None \<and>
   snd (validate Map.empty (JObj PlainObject [(''seed'', JStr ''anything''), (''copy'', JNum NaN)])) ''seed''
     = Some (JStr ''anything'') \<and>
   snd (validate Map.empty (JObj PlainObject [(''seed'', JStr ''anything''), (''copy'', JNum NaN)])) ''copy''
     = Some (JNum NaN) \<and>
   fst (validate Map.empty (JObj PlainObject [])) = None"
proof -
  let ?o = "JObj PlainObject [(''seed'', JStr ''anything''), (''copy'', JNum NaN)]"
  have o: "isObject ?o" by (simp add: isObject_def)
  have n: "fst (validate Map.empty (JObj PlainObject [])) = None"
    by (simp add: validate_defs)
  have same: "isObject (JObj PlainObject []) \<and>
      (\<forall>k. k \<notin> {''prng'', ''seed'', ''state'', ''copy''} \<longrightarrow>
         hasOwnProp (JObj PlainObject []) k = hasOwnProp ?o k \<and>
         getProp (JObj PlainObject []) k = getProp ?o k)"
    by (simp add: helper_defs)
  from validate_passthrough [OF o, of Map.empty] same n
  have e: "fst (validate Map.empty ?o) = None" by metis
  have own: "hasOwnProp ?o ''seed''" "hasOwnProp ?o ''copy''"
    by (simp_all add: helper_defs)
  from validate_passthrough [OF o, of Map.empty] e own
  have "snd (validate Map.empty ?o) ''seed'' = Some (getProp ?o ''seed'')"
    "snd (validate Map.empty ?o) ''copy'' = Some (getProp ?o ''copy'')"
    by blast+
  then show ?thesis using e n by (simp add: helper_defs)
qed

section \<open>What validate writes\<close>

text \<open>
  C6. \<open>validate\<close> writes only the ten recognized keys: a key \<open>k\<close> outside of them is in the
  destination as it was. A key is written only when it is an own property of \<open>options\<close>:
  a key that \<open>options\<close> does not have is as it was (absent if it was absent: there is no
  defaulting); and a key that has changed holds the value \<open>options\<close> has for it. A
  plain-object \<open>options\<close> with none of the ten keys (only unrecognized ones, or none) gives
  \<open>null\<close> and the destination unchanged.
\<close>

theorem validate_frame:
  "(k \<notin> {''sep'', ''objectMode'', ''encoding'', ''highWaterMark'', ''iter'', ''siter'',
          ''prng'', ''seed'', ''state'', ''copy''} \<longrightarrow> snd (validate opts options) k = opts k) \<and>
   (\<not> hasOwnProp options k \<longrightarrow> snd (validate opts options) k = opts k) \<and>
   (snd (validate opts options) k \<noteq> opts k \<longrightarrow>
      snd (validate opts options) k = Some (getProp options k)) \<and>
   (isObject options \<and>
    (\<forall>k'\<in>{''sep'', ''objectMode'', ''encoding'', ''highWaterMark'', ''iter'', ''siter'',
          ''prng'', ''seed'', ''state'', ''copy''}. \<not> hasOwnProp options k') \<longrightarrow>
      validate opts options = (None, opts))"
  using validate_frame_aux [of k opts options] unfolding recognized_keys .

theorem validate_frame_witness:
  "validate [''sep'' \<mapsto> JStr ''old''] (JObj PlainObject [(''verbose'', JBool True), (''name'', JStr ''x'')])
     = (None, [''sep'' \<mapsto> JStr ''old''])"
  using validate_frame
    [of "''sep''" "[''sep'' \<mapsto> JStr ''old'']"
        "JObj PlainObject [(''verbose'', JBool True), (''name'', JStr ''x'')]"]
  by (simp add: helper_defs)

section \<open>The error for sep\<close>

text \<open>
  C7. For every plain-object \<open>options\<close> that has \<open>sep\<close> as an own property with a value that
  is not a string, \<open>validate\<close> returns a \<open>TypeError\<close> whose message is built from the name
  \<open>sep\<close> and the value received, whatever the other fields are.
\<close>

theorem validate_sep_error:
  assumes "isObject options" and "hasOwnProp options ''sep''"
    and "\<not> isString (getProp options ''sep'')"
  shows "fst (validate opts options) =
           Some (TypeError (Format ''0qh2W,Gh'' [JStr ''sep'', getProp options ''sep'']))"
  using assms by (simp add: validate_fst checks_def check_invalid_def check_error_def)

theorem validate_sep_error_witness:
  "fst (validate Map.empty (JObj PlainObject [(''iter'', JNum (Fin 1)), (''sep'', JNum (Fin 5))]))
     = Some (TypeError (Format ''0qh2W,Gh'' [JStr ''sep'', JNum (Fin 5)]))"
  using validate_sep_error
    [of "JObj PlainObject [(''iter'', JNum (Fin 1)), (''sep'', JNum (Fin 5))]" Map.empty]
  by (simp add: helper_defs)

section \<open>The check of iter\<close>

text \<open>
  C8. \<open>iter\<close> is accepted by \<open>validate\<close> if and only if it is a non-negative integer. For a
  plain-object \<open>options\<close> that has \<open>iter\<close> and whose fields checked before it (\<open>sep\<close>,
  \<open>objectMode\<close>, \<open>encoding\<close>, \<open>highWaterMark\<close>) pass, so that the check of \<open>iter\<close> is reached:
  \<^item> with \<open>siter\<close> absent or valid as well, \<open>validate\<close> returns \<open>null\<close> if and only if the value
    of \<open>iter\<close> is a number \<open>n\<close> with \<open>n\<close> a natural number;
  \<^item> \<open>validate\<close> returns the error for \<open>iter\<close> if and only if the value is not such a number;
  \<^item> when the value is such a number and \<open>siter\<close> is invalid, the result is the error for
    \<open>siter\<close>: validation has gone past \<open>iter\<close>.

  So \<open>0\<close> is accepted (there is no sentinel in its place), and negative, fractional,
  infinite, not-a-number and non-numeric values are rejected with the error for \<open>iter\<close>.
\<close>

theorem validate_iter:
  assumes "isObject options"
    and "hasOwnProp options ''sep'' \<longrightarrow> isString (getProp options ''sep'')"
    and "hasOwnProp options ''objectMode'' \<longrightarrow> isBoolean (getProp options ''objectMode'')"
    and "hasOwnProp options ''encoding'' \<longrightarrow>
           isString (getProp options ''encoding'') \<or> getProp options ''encoding'' = JNull"
    and "hasOwnProp options ''highWaterMark'' \<longrightarrow> isNonNegative (getProp options ''highWaterMark'')"
    and "hasOwnProp options ''iter''"
  shows "((hasOwnProp options ''siter'' \<longrightarrow> isPositiveInteger (getProp options ''siter'')) \<longrightarrow>
            (fst (validate opts options) = None
               \<longleftrightarrow> (\<exists>n::nat. getProp options ''iter'' = JNum (Fin (of_nat n))))) \<and>
         (fst (validate opts options) =
            Some (TypeError (Format ''0qh2t,G9'' [JStr ''iter'', getProp options ''iter'']))
               \<longleftrightarrow> \<not> (\<exists>n::nat. getProp options ''iter'' = JNum (Fin (of_nat n)))) \<and>
         ((\<exists>n::nat. getProp options ''iter'' = JNum (Fin (of_nat n))) \<and>
          hasOwnProp options ''siter'' \<and> \<not> isPositiveInteger (getProp options ''siter'') \<longrightarrow>
            fst (validate opts options) =
              Some (TypeError (Format ''0qh3P,Fv'' [JStr ''siter'', getProp options ''siter''])))"
proof -
  have r: "fst (validate opts options) =
      (if \<not> isNonNegativeInteger (getProp options ''iter'')
       then Some (TypeError (Format ''0qh2t,G9'' [JStr ''iter'', getProp options ''iter'']))
       else if hasOwnProp options ''siter'' \<and> \<not> isPositiveInteger (getProp options ''siter'')
       then Some (TypeError (Format ''0qh3P,Fv'' [JStr ''siter'', getProp options ''siter'']))
       else None)"
  proof -
    have "\<forall>c\<in>set (take 4 checks). \<not> check_invalid options c"
      using assms(2-5) by (simp add: checks_def check_invalid_def)
    with assms(1) have "fst (validate opts options) =
        map_option (check_error options) (find (check_invalid options) (drop 4 checks))"
      by (rule validate_fst_skip)
    then show ?thesis
      using assms(6) by (simp add: checks_def check_invalid_def check_error_def)
  qed
  show ?thesis
    unfolding isNonNegativeInteger_iff [symmetric] r by simp
qed

theorem validate_iter_witness:
  "fst (validate Map.empty (JObj PlainObject [(''sep'', JStr ''x''), (''iter'', JNum (Fin 0))])) = None \<and>
   fst (validate Map.empty (JObj PlainObject [(''iter'', JNum (Fin 10)), (''siter'', JNum (Fin 3))])) = None \<and>
   fst (validate Map.empty (JObj PlainObject [(''iter'', JNum (Fin (-1)))]))
     = Some (TypeError (Format ''0qh2t,G9'' [JStr ''iter'', JNum (Fin (-1))])) \<and>
   fst (validate Map.empty (JObj PlainObject [(''iter'', JNum (Fin (3 / 2)))]))
     = Some (TypeError (Format ''0qh2t,G9'' [JStr ''iter'', JNum (Fin (3 / 2))])) \<and>
   fst (validate Map.empty (JObj PlainObject [(''iter'', JStr ''5'')]))
     = Some (TypeError (Format ''0qh2t,G9'' [JStr ''iter'', JStr ''5'']))"
proof -
  have half: "\<lfloor>3 / 2 :: rat\<rfloor> = 1"
    by (rule floor_unique) simp_all
  have 1: "fst (validate Map.empty
      (JObj PlainObject [(''sep'', JStr ''x''), (''iter'', JNum (Fin 0))])) = None"
    using validate_iter [unfolded isNonNegativeInteger_iff [symmetric], of "JObj PlainObject [(''sep'', JStr ''x''), (''iter'', JNum (Fin 0))]" Map.empty]
    by (simp add: helper_defs)
  have 2: "fst (validate Map.empty
      (JObj PlainObject [(''iter'', JNum (Fin 10)), (''siter'', JNum (Fin 3))])) = None"
    using validate_iter [unfolded isNonNegativeInteger_iff [symmetric], of "JObj PlainObject [(''iter'', JNum (Fin 10)), (''siter'', JNum (Fin 3))]" Map.empty]
    by (simp add: helper_defs)
  have 3: "fst (validate Map.empty (JObj PlainObject [(''iter'', JNum (Fin (-1)))]))
     = Some (TypeError (Format ''0qh2t,G9'' [JStr ''iter'', JNum (Fin (-1))]))"
    using validate_iter [unfolded isNonNegativeInteger_iff [symmetric], of "JObj PlainObject [(''iter'', JNum (Fin (-1)))]" Map.empty]
    by (simp add: helper_defs)
  have 4: "fst (validate Map.empty (JObj PlainObject [(''iter'', JNum (Fin (3 / 2)))]))
     = Some (TypeError (Format ''0qh2t,G9'' [JStr ''iter'', JNum (Fin (3 / 2))]))"
    using validate_iter [unfolded isNonNegativeInteger_iff [symmetric], of "JObj PlainObject [(''iter'', JNum (Fin (3 / 2)))]" Map.empty]
    by (simp add: helper_defs half)
  have 5: "fst (validate Map.empty (JObj PlainObject [(''iter'', JStr ''5'')]))
     = Some (TypeError (Format ''0qh2t,G9'' [JStr ''iter'', JStr ''5'']))"
    using validate_iter [unfolded isNonNegativeInteger_iff [symmetric], of "JObj PlainObject [(''iter'', JStr ''5'')]" Map.empty]
    by (simp add: helper_defs)
  from 1 2 3 4 5 show ?thesis by (intro conjI)
qed

section \<open>The check of encoding\<close>

text \<open>
  C9. \<open>encoding\<close> is rejected by \<open>validate\<close> if and only if it is present, not a string and
  not \<open>null\<close>. For a plain-object \<open>options\<close> whose fields checked before it (\<open>sep\<close>,
  \<open>objectMode\<close>) pass, so that the check of \<open>encoding\<close> is reached:
  \<^item> with the fields checked after it (\<open>highWaterMark\<close>, \<open>iter\<close>, \<open>siter\<close>) absent or valid as
    well, \<open>validate\<close> returns \<open>null\<close> if and only if \<open>encoding\<close> is absent, a string or \<open>null\<close>;
  \<^item> \<open>validate\<close> returns the error naming \<open>encoding\<close> if and only if \<open>encoding\<close> is an own
    property of \<open>options\<close> whose value is no string and not \<open>null\<close>;
  \<^item> when \<open>encoding\<close> is absent, a string or \<open>null\<close>, the result is the one the later fields
    decide: the error of the first invalid one of \<open>highWaterMark\<close>, \<open>iter\<close>, \<open>siter\<close>, or
    \<open>null\<close>.

  Every string and \<open>null\<close> are accepted; \<open>undefined\<close>, numbers, booleans and objects are
  rejected.
\<close>

theorem validate_encoding:
  assumes "isObject options"
    and "hasOwnProp options ''sep'' \<longrightarrow> isString (getProp options ''sep'')"
    and "hasOwnProp options ''objectMode'' \<longrightarrow> isBoolean (getProp options ''objectMode'')"
  shows "((hasOwnProp options ''highWaterMark'' \<longrightarrow> isNonNegative (getProp options ''highWaterMark'')) \<and>
          (hasOwnProp options ''iter'' \<longrightarrow> isNonNegativeInteger (getProp options ''iter'')) \<and>
          (hasOwnProp options ''siter'' \<longrightarrow> isPositiveInteger (getProp options ''siter'')) \<longrightarrow>
            (fst (validate opts options) = None
               \<longleftrightarrow> (hasOwnProp options ''encoding'' \<longrightarrow>
                      (\<exists>s. getProp options ''encoding'' = JStr s) \<or>
                      getProp options ''encoding'' = JNull))) \<and>
         (fst (validate opts options) =
            Some (TypeError (Format ''0qh7n,Ny'' [JStr ''encoding'', getProp options ''encoding'']))
               \<longleftrightarrow> hasOwnProp options ''encoding'' \<and>
                   (\<forall>s. getProp options ''encoding'' \<noteq> JStr s) \<and>
                   getProp options ''encoding'' \<noteq> JNull) \<and>
         ((hasOwnProp options ''encoding'' \<longrightarrow>
             (\<exists>s. getProp options ''encoding'' = JStr s) \<or> getProp options ''encoding'' = JNull) \<longrightarrow>
            fst (validate opts options) =
              (if hasOwnProp options ''highWaterMark'' \<and>
                  \<not> isNonNegative (getProp options ''highWaterMark'')
               then Some (TypeError (Format ''0qh4k,I9''
                      [JStr ''highWaterMark'', getProp options ''highWaterMark'']))
               else if hasOwnProp options ''iter'' \<and>
                  \<not> isNonNegativeInteger (getProp options ''iter'')
               then Some (TypeError (Format ''0qh2t,G9'' [JStr ''iter'', getProp options ''iter'']))
               else if hasOwnProp options ''siter'' \<and>
                  \<not> isPositiveInteger (getProp options ''siter'')
               then Some (TypeError (Format ''0qh3P,Fv'' [JStr ''siter'', getProp options ''siter'']))
               else None))"
proof -
  let ?rej = "hasOwnProp options ''encoding'' \<and> \<not> isString (getProp options ''encoding'') \<and>
      getProp options ''encoding'' \<noteq> JNull"
  have r: "fst (validate opts options) =
      (if ?rej
       then Some (TypeError (Format ''0qh7n,Ny'' [JStr ''encoding'', getProp options ''encoding'']))
       else if hasOwnProp options ''highWaterMark'' \<and>
                  \<not> isNonNegative (getProp options ''highWaterMark'')
               then Some (TypeError (Format ''0qh4k,I9''
                      [JStr ''highWaterMark'', getProp options ''highWaterMark'']))
               else if hasOwnProp options ''iter'' \<and>
                  \<not> isNonNegativeInteger (getProp options ''iter'')
               then Some (TypeError (Format ''0qh2t,G9'' [JStr ''iter'', getProp options ''iter'']))
               else if hasOwnProp options ''siter'' \<and>
                  \<not> isPositiveInteger (getProp options ''siter'')
               then Some (TypeError (Format ''0qh3P,Fv'' [JStr ''siter'', getProp options ''siter'']))
               else None)"
  proof -
    have "\<forall>c\<in>set (take 2 checks). \<not> check_invalid options c"
      using assms(2,3) by (simp add: checks_def check_invalid_def)
    with assms(1) have "fst (validate opts options) =
        map_option (check_error options) (find (check_invalid options) (drop 2 checks))"
      by (rule validate_fst_skip)
    then show ?thesis
      by (simp add: checks_def check_invalid_def check_error_def)
  qed
  have s: "(\<exists>s. getProp options ''encoding'' = JStr s) \<longleftrightarrow> isString (getProp options ''encoding'')"
    "(\<forall>s. getProp options ''encoding'' \<noteq> JStr s) \<longleftrightarrow> \<not> isString (getProp options ''encoding'')"
    by (simp_all add: isString_iff)
  show ?thesis
    unfolding s r by simp
qed

theorem validate_encoding_witness:
  "fst (validate Map.empty (JObj PlainObject [(''sep'', JStr ''x''), (''encoding'', JStr ''utf8'')])) = None \<and>
   fst (validate Map.empty (JObj PlainObject [(''encoding'', JNull)])) = None \<and>
   fst (validate Map.empty (JObj PlainObject [(''sep'', JStr ''x''), (''encoding'', JUndefined)]))
     = Some (TypeError (Format ''0qh7n,Ny'' [JStr ''encoding'', JUndefined])) \<and>
   fst (validate Map.empty (JObj PlainObject [(''encoding'', JNum (Fin 5))]))
     = Some (TypeError (Format ''0qh7n,Ny'' [JStr ''encoding'', JNum (Fin 5)])) \<and>
   fst (validate Map.empty (JObj PlainObject [(''encoding'', JBool True)]))
     = Some (TypeError (Format ''0qh7n,Ny'' [JStr ''encoding'', JBool True]))"
proof -
  have 1: "fst (validate Map.empty
      (JObj PlainObject [(''sep'', JStr ''x''), (''encoding'', JStr ''utf8'')])) = None"
    using validate_encoding [of "JObj PlainObject [(''sep'', JStr ''x''), (''encoding'', JStr ''utf8'')]" Map.empty]
    by (simp add: helper_defs)
  have 2: "fst (validate Map.empty (JObj PlainObject [(''encoding'', JNull)])) = None"
    using validate_encoding [of "JObj PlainObject [(''encoding'', JNull)]" Map.empty]
    by (simp add: helper_defs)
  have 3: "fst (validate Map.empty
      (JObj PlainObject [(''sep'', JStr ''x''), (''encoding'', JUndefined)]))
     = Some (TypeError (Format ''0qh7n,Ny'' [JStr ''encoding'', JUndefined]))"
    using validate_encoding [of "JObj PlainObject [(''sep'', JStr ''x''), (''encoding'', JUndefined)]" Map.empty]
    by (simp add: helper_defs)
  have 4: "fst (validate Map.empty (JObj PlainObject [(''encoding'', JNum (Fin 5))]))
     = Some (TypeError (Format ''0qh7n,Ny'' [JStr ''encoding'', JNum (Fin 5)]))"
    using validate_encoding [of "JObj PlainObject [(''encoding'', JNum (Fin 5))]" Map.empty]
    by (simp add: helper_defs)
  have 5: "fst (validate Map.empty (JObj PlainObject [(''encoding'', JBool True)]))
     = Some (TypeError (Format ''0qh7n,Ny'' [JStr ''encoding'', JBool True]))"
    using validate_encoding [of "JObj PlainObject [(''encoding'', JBool True)]" Map.empty]
    by (simp add: helper_defs)
  from 1 2 3 4 5 show ?thesis by (intro conjI)
qed

section \<open>Options that are not a plain object\<close>

text \<open>
  C10. For every destination \<open>opts\<close> and every \<open>options\<close> that is not a plain object,
  \<open>validate\<close> returns a \<open>TypeError\<close> at once (the one built from \<open>options\<close> itself), and the
  destination is left as it was: no key of \<open>opts\<close> is written.
\<close>

theorem validate_not_plain_object:
  "\<not> isObject options \<Longrightarrow>
     validate opts options = (Some (TypeError (Format ''0qh2V,FD'' [options])), opts)"
  by (simp add: validate_def)

theorem validate_not_plain_object_witness:
  "validate [''sep'' \<mapsto> JStr ''x''] (JObj ArrayObject [(''sep'', JNum (Fin 5))])
     = (Some (TypeError (Format ''0qh2V,FD'' [JObj ArrayObject [(''sep'', JNum (Fin 5))]])),
        [''sep'' \<mapsto> JStr ''x''])"
  using validate_not_plain_object [of "JObj ArrayObject [(''sep'', JNum (Fin 5))]" "[''sep'' \<mapsto> JStr ''x'']"]
  by (simp add: isObject_def)

section \<open>Replacing a shared state\<close>

text \<open>
  C4. Let a manager \<open>m\<close> share its buffer (\<open>copy = false\<close>) with another holder \<open>other\<close>: both
  reference the same address. \<open>setState\<close> on \<open>m\<close> with a new buffer of the same length copies
  the contents into the shared buffer: \<open>m\<close> keeps its reference, and \<open>other\<close> reads the new
  contents. With a new buffer of another length, \<open>m\<close> alone is rebound to the new buffer:
  the store is unchanged, \<open>other\<close> still reads the old buffer, and \<open>m\<close> reads the new one.
\<close>

theorem setState_shared:
  assumes "owner m = Shared" and "copy m = False"
    and "ref other = ref m"
    and "ref m < length h" and "new < length h"
  shows "\<exists>m' h'. setState m new h = Some (m', h') \<and>
           (length (h ! new) = length (h ! ref m) \<longrightarrow>
              ref m' = ref m \<and> getState other h' = Some (h ! new) \<and> getState m' h' = Some (h ! new)) \<and>
           (length (h ! new) \<noteq> length (h ! ref m) \<longrightarrow>
              ref m' = new \<and> h' = h \<and> getState other h' = getState other h \<and>
              getState other h' = Some (h ! ref m) \<and> getState m' h' = Some (h ! new))"
  using assms
  by (simp add: setState_def getState_def copy_elements_same_length)

theorem setState_shared_witness:
  "setState \<lparr>ref = 0, owner = Shared, copy = False\<rparr> 1 [[1, 2, 3], [7, 8, 9]]
     = Some (\<lparr>ref = 0, owner = Shared, copy = False\<rparr>, [[7, 8, 9], [7, 8, 9]]) \<and>
   getState \<lparr>ref = 0, owner = Shared, copy = False\<rparr> [[7, 8, 9], [7, 8, 9]] = Some [7, 8, 9] \<and>
   setState \<lparr>ref = 0, owner = Shared, copy = False\<rparr> 1 [[1, 2, 3], [7, 8]]
     = Some (\<lparr>ref = 1, owner = Shared, copy = False\<rparr>, [[1, 2, 3], [7, 8]]) \<and>
   getState \<lparr>ref = 0, owner = Shared, copy = False\<rparr> [[1, 2, 3], [7, 8]] = Some [1, 2, 3]"
proof -
  let ?m = "\<lparr>ref = 0, owner = Shared, copy = False\<rparr>"
  let ?h = "[[1, 2, 3], [7, 8, 9]] :: heap"
  let ?g = "[[1, 2, 3], [7, 8]] :: heap"
  have same: "\<exists>m' h'. setState ?m 1 ?h = Some (m', h') \<and>
           (length (?h ! 1) = length (?h ! ref ?m) \<longrightarrow>
              ref m' = ref ?m \<and> getState ?m h' = Some (?h ! 1) \<and> getState m' h' = Some (?h ! 1)) \<and>
           (length (?h ! 1) \<noteq> length (?h ! ref ?m) \<longrightarrow>
              ref m' = 1 \<and> h' = ?h \<and> getState ?m h' = getState ?m ?h \<and>
              getState ?m h' = Some (?h ! ref ?m) \<and> getState m' h' = Some (?h ! 1))"
    by (rule setState_shared) simp_all
  have other: "\<exists>m' h'. setState ?m 1 ?g = Some (m', h') \<and>
           (length (?g ! 1) = length (?g ! ref ?m) \<longrightarrow>
              ref m' = ref ?m \<and> getState ?m h' = Some (?g ! 1) \<and> getState m' h' = Some (?g ! 1)) \<and>
           (length (?g ! 1) \<noteq> length (?g ! ref ?m) \<longrightarrow>
              ref m' = 1 \<and> h' = ?g \<and> getState ?m h' = getState ?m ?g \<and>
              getState ?m h' = Some (?g ! ref ?m) \<and> getState m' h' = Some (?g ! 1))"
    by (rule setState_shared) simp_all
  from same other show ?thesis
    by (auto simp: setState_def getState_def copy_elements_same_length)
qed

end
